theory Spec2Isabelle
  imports Main
begin

section \<open>Python values used by the orchestrator\<close>

text \<open>
  A Python \<open>dict\<close> keeps its keys in insertion order, and an assignment \<open>d[k] = v\<close>
  to a key that is already present replaces the value where the key stands. Dictionaries
  are therefore association lists with distinct keys; \<open>setitem\<close> is \<open>d[k] = v\<close> and
  \<open>map_of d k\<close> is the lookup.
\<close>

type_synonym ('k, 'v) dict = "('k \<times> 'v) list"

primrec setitem :: "'k \<Rightarrow> 'v \<Rightarrow> ('k, 'v) dict \<Rightarrow> ('k, 'v) dict" where
  "setitem k v [] = [(k, v)]"
| "setitem k v (p # ps) = (if fst p = k then (k, v) # ps else p # setitem k v ps)"

definition keys :: "('k, 'v) dict \<Rightarrow> 'k list" where
  "keys d = map fst d"

definition values_of :: "('k, 'v) dict \<Rightarrow> 'v list" where
  "values_of d = map snd d"

text \<open>\<open>sep.join(xs)\<close> on strings.\<close>

fun join :: "string \<Rightarrow> string list \<Rightarrow> string" where
  "join sep [] = []"
| "join sep [x] = x"
| "join sep (x # y # ys) = x @ sep @ join sep (y # ys)"

text \<open>
  What \<open>print\<close> writes and what an f-string builds is kept as a list of fragments: literal
  text, and the \<open>repr\<close> of a list of strings, which is left symbolic (Python's quoting
  rules for \<open>repr\<close> are not modelled).
\<close>

datatype fragment = Lit string | Repr "string list"

type_synonym line = "fragment list"

text \<open>
  Values produced by \<open>json.loads\<close>. Numbers are integers here; no value handled by the
  orchestrator is a float.
\<close>

datatype json =
    JNull
  | JBool bool
  | JInt int
  | JStr string
  | JArr "json list"
  | JObj "(string \<times> json) list"

text \<open>The exceptions the modelled code can raise or let through.\<close>

datatype exn =
    ValueError line
  | AttributeError string
  | TypeError string
  | KeyError string
  | Raised string

section \<open>Agent cards, connections and the orchestrator object\<close>

record AgentCard =
  name :: string
  description :: string
  url :: string
  version :: string
  default_input_modes :: "string list"
  default_output_modes :: "string list"
  streaming :: bool

text \<open>
  Modelled from the spec: the class \<open>RemoteAgentConnections\<close> of
  \<open>remote_agent_connection.py\<close>, which is not among the sources. The spec gives it the
  fields \<open>{card: AgentCard, endpoint: string}\<close>; the constructor call in
  \<open>_async_init_components\<close> names them \<open>agent_card\<close> and \<open>agent_url\<close>. An instance
  is an ordinary object, hence truthy.
\<close>

record RemoteAgentConnections =
  agent_card :: AgentCard
  agent_url :: string

record OrchestratorAgent =
  remote_agent_connections :: "(string, RemoteAgentConnections) dict"
  cards :: "(string, AgentCard) dict"
  agents :: string

text \<open>The three fields as \<open>__init__\<close> sets them (the ADK agent and runner are external).\<close>

definition init :: OrchestratorAgent where
  "init = \<lparr>remote_agent_connections = [], cards = [], agents = []\<rparr>"

section \<open>Discovery: \<open>_async_init_components\<close>\<close>

text \<open>
  \<open>A2ACardResolver.get_agent_card\<close> is the network: a parameter that, for an address,
  returns the card or raises. The handlers of the loop tell \<open>httpx.ConnectError\<close> from
  every other \<open>Exception\<close>; each carries \<open>str(e)\<close>.
\<close>

datatype card_error = ConnectError string | OtherException string

type_synonym resolver = "string \<Rightarrow> card_error + AgentCard"

text \<open>
  The \<open>for address in remote_agent_addresses\<close> loop. The state is the object and what
  has been printed so far. Neither handler re-raises, so the loop has no failing branch.
\<close>

fun discover :: "resolver \<Rightarrow> string list \<Rightarrow> OrchestratorAgent \<times> line list
    \<Rightarrow> OrchestratorAgent \<times> line list" where
  "discover get_agent_card [] s = s"
| "discover get_agent_card (address # rest) (self, out) =
     (case get_agent_card address of
        Inr crd \<Rightarrow>
          discover get_agent_card rest
            (self\<lparr>remote_agent_connections :=
                     setitem (name crd) \<lparr>agent_card = crd, agent_url = address\<rparr>
                       (remote_agent_connections self),
                   cards := setitem (name crd) crd (cards self)\<rparr>,
             out)
      | Inl (ConnectError e) \<Rightarrow>
          discover get_agent_card rest
            (self, out @ [[Lit (''ERROR: Failed to get agent card from '' @ address @ '': '' @ e)]])
      | Inl (OtherException e) \<Rightarrow>
          discover get_agent_card rest
            (self, out @ [[Lit (''ERROR: Failed to initialize connection for '' @ address @ '': '' @ e)]]))"

text \<open>
  The whole method: the loop, then the listing of the registered agents. \<open>json.dumps\<close> of
  the two-field dictionary is a parameter \<open>dumps\<close>, applied to the name and the
  description.
\<close>

definition async_init_components ::
  "resolver \<Rightarrow> (string \<Rightarrow> string \<Rightarrow> string) \<Rightarrow> string list
    \<Rightarrow> OrchestratorAgent \<times> line list \<Rightarrow> OrchestratorAgent \<times> line list" where
  "async_init_components get_agent_card dumps remote_agent_addresses s =
     (case discover get_agent_card remote_agent_addresses s of
        (self, out) \<Rightarrow>
          let agent_info = map (\<lambda>crd. dumps (name crd) (description crd)) (values_of (cards self))
          in (self\<lparr>agents := (if agent_info \<noteq> [] then join [CHR 0x0A] agent_info
                               else ''No connected agents found.'')\<rparr>,
              out @ [[Lit ''agent_info:'', Repr agent_info]]))"

text \<open>The factory \<open>create\<close>: a fresh object, then discovery.\<close>

definition create :: "resolver \<Rightarrow> (string \<Rightarrow> string \<Rightarrow> string) \<Rightarrow> string list
    \<Rightarrow> OrchestratorAgent \<times> line list" where
  "create get_agent_card dumps remote_agent_addresses =
     async_init_components get_agent_card dumps remote_agent_addresses (init, [])"

section \<open>Delegation: \<open>send_message\<close>\<close>

subsection \<open>Python operations on loaded JSON\<close>

text \<open>Truthiness, as \<open>if x:\<close> tests it.\<close>

fun truthy :: "json \<Rightarrow> bool" where
  "truthy JNull = False"
| "truthy (JBool b) = b"
| "truthy (JInt i) = (i \<noteq> 0)"
| "truthy (JStr s) = (s \<noteq> [])"
| "truthy (JArr xs) = (xs \<noteq> [])"
| "truthy (JObj kvs) = (kvs \<noteq> [])"

text \<open>\<open>x.get(k, default)\<close>: only a dictionary has the method.\<close>

fun py_get :: "json \<Rightarrow> string \<Rightarrow> json \<Rightarrow> exn + json" where
  "py_get (JObj kvs) k dflt = Inr (case map_of kvs k of None \<Rightarrow> dflt | Some v \<Rightarrow> v)"
| "py_get x k dflt = Inl (AttributeError ''get'')"

text \<open>\<open>x[k]\<close> with a string \<open>k\<close>.\<close>

fun py_getitem :: "json \<Rightarrow> string \<Rightarrow> exn + json" where
  "py_getitem (JObj kvs) k = (case map_of kvs k of None \<Rightarrow> Inl (KeyError k) | Some v \<Rightarrow> Inr v)"
| "py_getitem x k = Inl (TypeError ''subscript'')"

text \<open>
  What a \<open>for\<close> loop or \<open>list.extend\<close> iterates over: the elements of a list, the
  characters of a string, the keys of a dictionary; anything else is not iterable.
\<close>

fun py_iter :: "json \<Rightarrow> exn + json list" where
  "py_iter (JArr xs) = Inr xs"
| "py_iter (JStr s) = Inr (map (\<lambda>c. JStr [c]) s)"
| "py_iter (JObj kvs) = Inr (map (\<lambda>kv. JStr (fst kv)) kvs)"
| "py_iter x = Inl (TypeError ''not iterable'')"

subsection \<open>The request\<close>

text \<open>
  \<open>tool_context.state\<close> is a dictionary with string keys; the identifiers read from it
  are strings. \<open>state.get(key, default)\<close>:
\<close>

definition state_get :: "(string, string) dict \<Rightarrow> string \<Rightarrow> string \<Rightarrow> string" where
  "state_get state k dflt = (case map_of state k of None \<Rightarrow> dflt | Some v \<Rightarrow> v)"

text \<open>The dictionary \<open>payload\<close> of lines 210 to 218.\<close>

definition payload :: "string \<Rightarrow> string \<Rightarrow> string \<Rightarrow> string \<Rightarrow> json" where
  "payload task message_id task_id context_id =
     JObj [(''message'',
       JObj [(''role'', JStr ''user''),
             (''parts'', JArr [JObj [(''type'', JStr ''text''), (''text'', JStr task)]]),
             (''messageId'', JStr message_id),
             (''taskId'', JStr task_id),
             (''contextId'', JStr context_id)])]"

record SendMessageRequest =
  request_id :: string
  params :: json

text \<open>
  Lines 205 to 222. \<open>uuid.uuid4()\<close> is random: the source of identifiers is a parameter
  \<open>uuid4\<close>, an enumeration of the values drawn in the process, and \<open>n\<close> counts the draws
  made before the call. Python evaluates the default argument of \<open>state.get\<close> before the
  call, so the three draws happen whether or not the keys are present. The state is only
  read. \<open>MessageSendParams.model_validate\<close> accepts the payload, whose fields are strings,
  and is the identity here.
\<close>

definition message_request ::
  "(nat \<Rightarrow> string) \<Rightarrow> nat \<Rightarrow> (string, string) dict \<Rightarrow> string \<Rightarrow> SendMessageRequest" where
  "message_request uuid4 n state task =
     (let task_id = state_get state ''task_id'' (uuid4 n);
          context_id = state_get state ''context_id'' (uuid4 (n + 1));
          message_id = uuid4 (n + 2)
      in \<lparr>request_id = message_id, params = payload task message_id task_id context_id\<rparr>)"

subsection \<open>The response\<close>

text \<open>
  The a2a response types, as far as the code looks at them. A part of an artifact is an
  a2a \<open>Part\<close> object: a text part, a file part or a data part, each with optional
  metadata. The library tells them apart by the field \<open>kind\<close>.
\<close>

datatype A2APart =
    TextPart string "json option"
  | FilePart json "json option"
  | DataPart json "json option"

record Artifact =
  artifact_id :: string
  artifact_name :: "string option"
  parts :: "A2APart list"

record Task =
  tid :: string
  tcontext_id :: string
  tstate :: string
  artifacts :: "Artifact list option"

datatype result_payload = TaskResult Task | MessageResult json

datatype response_root =
    SendMessageSuccessResponse string result_payload
  | JSONRPCErrorResponse string json

text \<open>
  \<open>json.loads(root.model_dump_json(exclude_none=True))\<close> for a success response that
  wraps a task: every object is serialised again, field by field, and a field that is
  \<open>None\<close> is left out. A part is written with its discriminator \<open>kind\<close>; the key
  \<open>type\<close>, which the request of lines 210 to 218 uses, is not a field of an a2a part
  and is never written.
\<close>

definition dump_metadata :: "json option \<Rightarrow> (string \<times> json) list" where
  "dump_metadata m = (case m of None \<Rightarrow> [] | Some v \<Rightarrow> [(''metadata'', v)])"

fun dump_part :: "A2APart \<Rightarrow> json" where
  "dump_part (TextPart t m) =
     JObj ([(''kind'', JStr ''text'')] @ dump_metadata m @ [(''text'', JStr t)])"
| "dump_part (FilePart f m) =
     JObj ([(''file'', f), (''kind'', JStr ''file'')] @ dump_metadata m)"
| "dump_part (DataPart d m) =
     JObj ([(''data'', d), (''kind'', JStr ''data'')] @ dump_metadata m)"

definition dump_artifact :: "Artifact \<Rightarrow> json" where
  "dump_artifact a =
     JObj ([(''artifactId'', JStr (artifact_id a))]
           @ (case artifact_name a of None \<Rightarrow> [] | Some n \<Rightarrow> [(''name'', JStr n)])
           @ [(''parts'', JArr (map dump_part (parts a)))])"

definition dump_task :: "Task \<Rightarrow> json" where
  "dump_task t =
     JObj ((case artifacts t of None \<Rightarrow> []
            | Some arts \<Rightarrow> [(''artifacts'', JArr (map dump_artifact arts))])
           @ [(''contextId'', JStr (tcontext_id t)),
              (''id'', JStr (tid t)),
              (''kind'', JStr ''task''),
              (''status'', JObj [(''state'', JStr (tstate t))])])"

definition model_dump_json :: "string \<Rightarrow> Task \<Rightarrow> json" where
  "model_dump_json i t =
     JObj [(''id'', JStr i), (''jsonrpc'', JStr ''2.0''), (''result'', dump_task t)]"

subsection \<open>Collecting the parts (lines 235 to 240)\<close>

text \<open>The inner \<open>for artifact in ...\<close> loop, with \<open>resp\<close> as accumulator.\<close>

fun extend_parts :: "json list \<Rightarrow> json list \<Rightarrow> exn + json list" where
  "extend_parts resp [] = Inr resp"
| "extend_parts resp (artifact # rest) =
     (case py_get artifact ''parts'' JNull of
        Inl e \<Rightarrow> Inl e
      | Inr p \<Rightarrow>
          if truthy p then
            (case py_getitem artifact ''parts'' of
               Inl e \<Rightarrow> Inl e
             | Inr ps \<Rightarrow>
                 (case py_iter ps of
                    Inl e \<Rightarrow> Inl e
                  | Inr xs \<Rightarrow> extend_parts (resp @ xs) rest))
          else extend_parts resp rest)"

definition collect_parts :: "json \<Rightarrow> exn + json list" where
  "collect_parts json_content =
     (case py_get json_content ''result'' (JObj []) of
        Inl e \<Rightarrow> Inl e
      | Inr r \<Rightarrow>
          (case py_get r ''artifacts'' JNull of
             Inl e \<Rightarrow> Inl e
           | Inr a \<Rightarrow>
               if truthy a then
                 (case py_getitem json_content ''result'' of
                    Inl e \<Rightarrow> Inl e
                  | Inr r' \<Rightarrow>
                      (case py_getitem r' ''artifacts'' of
                         Inl e \<Rightarrow> Inl e
                       | Inr arts \<Rightarrow>
                           (case py_iter arts of
                              Inl e \<Rightarrow> Inl e
                            | Inr xs \<Rightarrow> extend_parts [] xs)))
               else Inr []))"

subsection \<open>The tool\<close>

text \<open>What the tool returns: the list \<open>resp\<close>, or the error string.\<close>

datatype tool_output = Parts "json list" | Text string

text \<open>
  \<open>client.send_message\<close> belongs to the class that is not among the sources, so the tool
  takes it as a parameter \<open>client_send\<close>, which returns a response or raises. The tool
  has no handler around the call: what \<open>client_send\<close> raises, the tool raises. The test
  \<open>if not client\<close> of line 202 never fires, an instance being truthy. The two \<open>print\<close>
  calls of the tool are left out: no property below is about them.
\<close>

definition send_message ::
  "(RemoteAgentConnections \<Rightarrow> SendMessageRequest \<Rightarrow> exn + response_root)
    \<Rightarrow> (nat \<Rightarrow> string) \<Rightarrow> nat \<Rightarrow> OrchestratorAgent
    \<Rightarrow> string \<Rightarrow> string \<Rightarrow> (string, string) dict \<Rightarrow> exn + tool_output" where
  "send_message client_send uuid4 n self agent_name task state =
     (case map_of (remote_agent_connections self) agent_name of
        None \<Rightarrow>
          Inl (ValueError
            [Lit (''Agent '' @ [CHR 0x27] @ agent_name @ [CHR 0x27]
                  @ '' not found. Available agents: ''),
             Repr (keys (remote_agent_connections self))])
      | Some client \<Rightarrow>
          (case client_send client (message_request uuid4 n state task) of
             Inl e \<Rightarrow> Inl e
           | Inr (JSONRPCErrorResponse i err) \<Rightarrow>
               Inr (Text ''Error: Failed to get a valid response from the agent.'')
           | Inr (SendMessageSuccessResponse i (MessageResult m)) \<Rightarrow>
               Inr (Text ''Error: Failed to get a valid response from the agent.'')
           | Inr (SendMessageSuccessResponse i (TaskResult t)) \<Rightarrow>
               (case collect_parts (model_dump_json i t) of
                  Inl e \<Rightarrow> Inl e
                | Inr resp \<Rightarrow> Inr (Parts resp))))"

subsection \<open>The connection's send operation\<close>

datatype transport_error = Timeout | ConnectionRefused | MalformedResponseBody

type_synonym transport = "string \<Rightarrow> SendMessageRequest \<Rightarrow> transport_error + response_root"

definition reason :: "transport_error \<Rightarrow> string" where
  "reason err = (case err of Timeout \<Rightarrow> ''timeout''
                 | ConnectionRefused \<Rightarrow> ''connection refused''
                 | MalformedResponseBody \<Rightarrow> ''malformed response body'')"

text \<open>
  Modelled from the spec: the method \<open>RemoteAgentConnections.send_message\<close> of
  \<open>remote_agent_connection.py\<close>, which is not among the sources. The spec (4.2): it
  issues a single request to the peer endpoint and deserialises the reply; transport
  errors (timeout, connection refused, malformed response body) are caught locally and
  converted to a failure, never propagated to the caller. The request over the network
  is the parameter \<open>wire\<close>; the failure is a response that is not a success, carrying the
  reason.
\<close>

definition connection_send_message ::
  "transport \<Rightarrow> RemoteAgentConnections \<Rightarrow> SendMessageRequest \<Rightarrow> exn + response_root" where
  "connection_send_message wire client message_request' =
     (case wire (agent_url client) message_request' of
        Inl err \<Rightarrow>
          Inr (JSONRPCErrorResponse (request_id message_request')
                (JObj [(''message'', JStr (reason err))]))
      | Inr reply \<Rightarrow> Inr reply)"

section \<open>The progress stream: \<open>stream\<close>\<close>

text \<open>The ADK event, as far as \<open>stream\<close> looks at it.\<close>

record Part =
  part_text :: "string option"

record Content =
  content_parts :: "Part list option"

record Event =
  is_final_response :: bool
  content :: "Content option"

text \<open>
  Lines 169 to 177: the text of a final response. The three tests are truthiness tests:
  a content that is not \<open>None\<close>, a list of parts that is neither \<open>None\<close> nor empty, a
  first part whose text is neither \<open>None\<close> nor empty.
\<close>

definition response_text :: "Event \<Rightarrow> string" where
  "response_text event =
     (case content event of
        None \<Rightarrow> []
      | Some c \<Rightarrow>
          (case content_parts c of
             None \<Rightarrow> []
           | Some [] \<Rightarrow> []
           | Some (p # ps) \<Rightarrow>
               (case part_text p of
                  None \<Rightarrow> []
                | Some [] \<Rightarrow> []
                | Some (ch # chs) \<Rightarrow>
                    join [CHR 0x0A]
                      (concat (map (\<lambda>q. case part_text q of None \<Rightarrow> []
                                          | Some t \<Rightarrow> if t \<noteq> [] then [t] else [])
                                   (p # ps))))))"

text \<open>The body of the \<open>async for\<close>: one dictionary yielded for each event.\<close>

definition relay :: "Event \<Rightarrow> json" where
  "relay event =
     (if is_final_response event
      then JObj [(''is_task_complete'', JBool True), (''content'', JStr (response_text event))]
      else JObj [(''is_task_complete'', JBool False),
                 (''updates'', JStr ''The orchestrator agent is thinking...'')])"

text \<open>
  The session service and the runner belong to the ADK and are parameters. The service
  keeps its sessions in a store: \<open>get_session\<close> looks a session up by the identifier the
  caller gave, \<open>create_session\<close> makes one and returns it with the new store. The
  session carries its own identifier, which the service chooses: it need not be the one
  the caller asked for. \<open>run_async\<close> gives the events of the turn for the store, an
  identifier and the query. \<open>stream\<close> creates the session when it is missing, runs the
  turn under \<open>session.id\<close> and yields \<open>relay event\<close> for each event, in order.
\<close>

record Session =
  session_ident :: string
  session_state :: "(string, string) dict"

text \<open>Lines 152 to 164: the session of the turn, and the store after it was looked up.\<close>

definition resolve_session ::
  "('store \<Rightarrow> string \<Rightarrow> Session option) \<Rightarrow> ('store \<Rightarrow> string \<Rightarrow> 'store \<times> Session)
    \<Rightarrow> 'store \<Rightarrow> string \<Rightarrow> 'store \<times> Session" where
  "resolve_session get_session create_session store session_id =
     (case get_session store session_id of
        None \<Rightarrow> create_session store session_id
      | Some session \<Rightarrow> (store, session))"

definition stream ::
  "('store \<Rightarrow> string \<Rightarrow> Session option) \<Rightarrow> ('store \<Rightarrow> string \<Rightarrow> 'store \<times> Session)
    \<Rightarrow> ('store \<Rightarrow> string \<Rightarrow> string \<Rightarrow> Event list) \<Rightarrow> 'store \<Rightarrow> string \<Rightarrow> string
    \<Rightarrow> 'store \<times> json list" where
  "stream get_session create_session run_async store query session_id =
     (case resolve_session get_session create_session store session_id of
        (store', session) \<Rightarrow>
          (store', map relay (run_async store' (session_ident session) query)))"

text \<open>Reading the flag of a yielded dictionary.\<close>

definition is_task_complete :: "json \<Rightarrow> bool" where
  "is_task_complete item =
     (case item of JObj kvs \<Rightarrow> map_of kvs ''is_task_complete'' = Some (JBool True)
      | _ \<Rightarrow> False)"

text \<open>
  The shape the stream is meant to have, on the sequence of flags: some flags that are
  false, then exactly one that is true, and nothing after it.
\<close>

definition progress_then_terminal :: "bool list \<Rightarrow> bool" where
  "progress_then_terminal flags =
     (flags \<noteq> [] \<and> last flags \<and> list_all Not (butlast flags))"

section \<open>Notions used to state the properties\<close>

text \<open>A run of assignments \<open>d[k] = v\<close>, in order.\<close>

definition assign_all :: "('k \<times> 'v) list \<Rightarrow> ('k, 'v) dict \<Rightarrow> ('k, 'v) dict" where
  "assign_all kvs d = foldl (\<lambda>d' kv. setitem (fst kv) (snd kv) d') d kvs"

text \<open>The addresses that answer with a card, in order, each with its card.\<close>

fun fetched :: "resolver \<Rightarrow> string list \<Rightarrow> (string \<times> AgentCard) list" where
  "fetched g [] = []"
| "fetched g (a # as) = (case g a of Inr c \<Rightarrow> (a, c) # fetched g as | Inl e \<Rightarrow> fetched g as)"

text \<open>The line printed for an address that fails, and the lines of a list of addresses.\<close>

fun error_line :: "string \<Rightarrow> card_error \<Rightarrow> line" where
  "error_line a (ConnectError e) =
     [Lit (''ERROR: Failed to get agent card from '' @ a @ '': '' @ e)]"
| "error_line a (OtherException e) =
     [Lit (''ERROR: Failed to initialize connection for '' @ a @ '': '' @ e)]"

fun failed :: "resolver \<Rightarrow> string list \<Rightarrow> line list" where
  "failed g [] = []"
| "failed g (a # as) =
     (case g a of Inr c \<Rightarrow> failed g as | Inl e \<Rightarrow> error_line a e # failed g as)"

text \<open>The identifiers a request carries, read from its payload.\<close>

definition task_id_of :: "SendMessageRequest \<Rightarrow> exn + json" where
  "task_id_of req =
     (case py_getitem (params req) ''message'' of
        Inl e \<Rightarrow> Inl e
      | Inr m \<Rightarrow> py_getitem m ''taskId'')"

definition context_id_of :: "SendMessageRequest \<Rightarrow> exn + json" where
  "context_id_of req =
     (case py_getitem (params req) ''message'' of
        Inl e \<Rightarrow> Inl e
      | Inr m \<Rightarrow> py_getitem m ''contextId'')"

subsection \<open>Sample inputs\<close>

definition sample_card :: "string \<Rightarrow> AgentCard" where
  "sample_card n =
     \<lparr>name = n, description = n @ '' agent'', url = ''http://localhost:10002/'',
      version = ''1.0.0'', default_input_modes = [''text/plain''],
      default_output_modes = [''text/plain''], streaming = True\<rparr>"

definition sample_agent :: OrchestratorAgent where
  "sample_agent =
     \<lparr>remote_agent_connections =
        [(''Weather_Agent'',
          \<lparr>agent_card = sample_card ''Weather_Agent'', agent_url = ''http://localhost:10002''\<rparr>)],
      cards = [(''Weather_Agent'', sample_card ''Weather_Agent'')],
      agents = []\<rparr>"

definition sample_task :: "Artifact list option \<Rightarrow> Task" where
  "sample_task arts = \<lparr>tid = ''t1'', tcontext_id = ''c1'', tstate = ''completed'', artifacts = arts\<rparr>"

text \<open>Three peers: two that answer with a card, one that refuses the connection.\<close>

definition sample_resolver :: resolver where
  "sample_resolver a =
     (if a = ''A_ok'' then Inr (sample_card ''A'')
      else if a = ''B_ok'' then Inr (sample_card ''B'')
      else Inl (ConnectError ''All connection attempts failed''))"

text \<open>
  A session service in memory: a dictionary from identifier to session. For an empty
  identifier it makes up one of its own.
\<close>

definition sample_get_session :: "(string, Session) dict \<Rightarrow> string \<Rightarrow> Session option" where
  "sample_get_session store session_id = map_of store session_id"

definition sample_create_session ::
  "(string, Session) dict \<Rightarrow> string \<Rightarrow> (string, Session) dict \<times> Session" where
  "sample_create_session store session_id =
     (let session = \<lparr>session_ident = (if session_id = [] then ''generated'' else session_id),
                      session_state = []\<rparr>
      in (setitem (session_ident session) session store, session))"

text \<open>A source of identifiers that never repeats: the \<open>k\<close>-th draw is \<open>k\<close> letters long.\<close>

definition sample_uuid4 :: "nat \<Rightarrow> string" where
  "sample_uuid4 k = replicate k CHR ''u''"

section \<open>Properties of \<open>send_message\<close>\<close>

lemma py_get_dump_artifact:
  "py_get (dump_artifact a) ''parts'' JNull = Inr (JArr (map dump_part (parts a)))"
  by (simp add: dump_artifact_def split: option.split)

lemma py_getitem_dump_artifact:
  "py_getitem (dump_artifact a) ''parts'' = Inr (JArr (map dump_part (parts a)))"
  by (simp add: dump_artifact_def split: option.split)

lemma extend_parts_dump:
  "extend_parts resp (map dump_artifact arts)
     = Inr (resp @ concat (map (\<lambda>a. map dump_part (parts a)) arts))"
  by (induction arts arbitrary: resp)
     (simp_all add: py_get_dump_artifact py_getitem_dump_artifact)

lemma collect_parts_dump:
  "collect_parts (model_dump_json i t) =
     Inr (case artifacts t of None \<Rightarrow> []
          | Some arts \<Rightarrow> concat (map (\<lambda>a. map dump_part (parts a)) arts))"
  by (cases "artifacts t")
     (simp_all add: collect_parts_def model_dump_json_def dump_task_def extend_parts_dump)

lemma send_message_task:
  assumes "map_of (remote_agent_connections self) agent_name = Some client"
    and "client_send client (message_request uuid n state task) =
           Inr (SendMessageSuccessResponse i (TaskResult t))"
  shows "send_message client_send uuid n self agent_name task state =
           Inr (Parts (case artifacts t of None \<Rightarrow> []
                       | Some arts \<Rightarrow> concat (map (\<lambda>a. map dump_part (parts a)) arts)))"
  using assms by (simp add: send_message_def collect_parts_dump)

text \<open>
  Claim C6, as the code has it. When the agent is registered and the remote reply is a
  success response that wraps a task with artifacts, \<open>send_message\<close> returns the list
  made of the parts of each artifact, in order, each part as line 232 serialises it
  again. For one artifact that holds the text part \<open>72F\<close> that list is
  \<open>[{kind: "text", text: "72F"}]\<close>.
\<close>

theorem send_message_returns_serialised_parts:
  assumes "map_of (remote_agent_connections self) agent_name = Some client"
    and "client_send client (message_request uuid n state task) =
           Inr (SendMessageSuccessResponse i (TaskResult t))"
    and "artifacts t = Some arts"
  shows "send_message client_send uuid n self agent_name task state =
           Inr (Parts (concat (map (\<lambda>a. map dump_part (parts a)) arts)))"
  using assms by (simp add: send_message_def collect_parts_dump)

theorem send_message_returns_serialised_parts_witness:
  "send_message
     (\<lambda>client req. Inr (SendMessageSuccessResponse ''1''
        (TaskResult (sample_task (Some
          [\<lparr>artifact_id = ''a1'', artifact_name = None, parts = [TextPart ''72F'' None]\<rparr>])))))
     sample_uuid4 0 sample_agent ''Weather_Agent'' ''What is the weather?'' []
   = Inr (Parts [JObj [(''kind'', JStr ''text''), (''text'', JStr ''72F'')]])"
  using send_message_returns_serialised_parts
    [where self = sample_agent and agent_name = "''Weather_Agent''"
       and client = "\<lparr>agent_card = sample_card ''Weather_Agent'',
                        agent_url = ''http://localhost:10002''\<rparr>"
       and client_send = "\<lambda>client req. Inr (SendMessageSuccessResponse ''1''
             (TaskResult (sample_task (Some
               [\<lparr>artifact_id = ''a1'', artifact_name = None,
                 parts = [TextPart ''72F'' None]\<rparr>]))))"
       and uuid = sample_uuid4 and n = 0 and state = "[]" and task = "''What is the weather?''"
       and i = "''1''"
       and t = "sample_task (Some
               [\<lparr>artifact_id = ''a1'', artifact_name = None,
                 parts = [TextPart ''72F'' None]\<rparr>])"
       and arts = "[\<lparr>artifact_id = ''a1'', artifact_name = None,
                 parts = [TextPart ''72F'' None]\<rparr>]"]
  by (simp add: sample_agent_def sample_task_def dump_metadata_def)

text \<open>
  Claim C6, as the spec words it, fails: for that reply the list returned is not
  \<open>[{type: "text", text: "72F"}]\<close>, in either order of the two keys. The part comes back
  under the key \<open>kind\<close>.
\<close>

theorem serialised_part_is_not_keyed_by_type:
  "send_message
     (\<lambda>client req. Inr (SendMessageSuccessResponse ''1''
        (TaskResult (sample_task (Some
          [\<lparr>artifact_id = ''a1'', artifact_name = None, parts = [TextPart ''72F'' None]\<rparr>])))))
     sample_uuid4 0 sample_agent ''Weather_Agent'' ''What is the weather?'' []
   \<noteq> Inr (Parts [JObj [(''type'', JStr ''text''), (''text'', JStr ''72F'')]])
   \<and> send_message
     (\<lambda>client req. Inr (SendMessageSuccessResponse ''1''
        (TaskResult (sample_task (Some
          [\<lparr>artifact_id = ''a1'', artifact_name = None, parts = [TextPart ''72F'' None]\<rparr>])))))
     sample_uuid4 0 sample_agent ''Weather_Agent'' ''What is the weather?'' []
   \<noteq> Inr (Parts [JObj [(''text'', JStr ''72F''), (''type'', JStr ''text'')]])"
  by (simp add: send_message_def collect_parts_dump sample_agent_def sample_task_def
        dump_metadata_def)

text \<open>
  Claim C10. When the agent is registered and the remote reply is a success response
  that wraps a task with no artifacts, or whose artifacts all have no parts,
  \<open>send_message\<close> returns the empty list, not the error string.
\<close>

theorem send_message_without_parts_returns_empty_list:
  assumes "map_of (remote_agent_connections self) agent_name = Some client"
    and "client_send client (message_request uuid n state task) =
           Inr (SendMessageSuccessResponse i (TaskResult t))"
    and "\<forall>arts. artifacts t = Some arts \<longrightarrow> (\<forall>a \<in> set arts. parts a = [])"
  shows "send_message client_send uuid n self agent_name task state = Inr (Parts [])"
proof (cases "artifacts t")
  case None
  with assms(1,2) show ?thesis
    by (simp add: send_message_def collect_parts_dump)
next
  case (Some arts)
  with assms(3) have "concat (map parts arts) = []" by simp
  with Some assms(1,2) show ?thesis
    by (simp add: send_message_def collect_parts_dump)
qed

theorem send_message_without_parts_returns_empty_list_witness:
  "send_message
     (\<lambda>client req. Inr (SendMessageSuccessResponse ''1'' (TaskResult (sample_task None))))
     sample_uuid4 0 sample_agent ''Weather_Agent'' ''What is the weather?'' []
   = Inr (Parts [])
   \<and> send_message
     (\<lambda>client req. Inr (SendMessageSuccessResponse ''1''
        (TaskResult (sample_task (Some
          [\<lparr>artifact_id = ''a1'', artifact_name = None, parts = []\<rparr>])))))
     sample_uuid4 0 sample_agent ''Weather_Agent'' ''What is the weather?'' []
   = Inr (Parts [])"
proof
  show "send_message
     (\<lambda>client req. Inr (SendMessageSuccessResponse ''1'' (TaskResult (sample_task None))))
     sample_uuid4 0 sample_agent ''Weather_Agent'' ''What is the weather?'' []
   = Inr (Parts [])"
    using send_message_without_parts_returns_empty_list
      [where self = sample_agent and agent_name = "''Weather_Agent''"
         and client = "\<lparr>agent_card = sample_card ''Weather_Agent'',
                          agent_url = ''http://localhost:10002''\<rparr>"
         and client_send = "\<lambda>client req. Inr (SendMessageSuccessResponse ''1''
               (TaskResult (sample_task None)))"
         and uuid = sample_uuid4 and n = 0 and state = "[]"
         and task = "''What is the weather?''" and i = "''1''"
         and t = "sample_task None"]
    by (simp add: sample_agent_def sample_task_def)
  show "send_message
     (\<lambda>client req. Inr (SendMessageSuccessResponse ''1''
        (TaskResult (sample_task (Some
          [\<lparr>artifact_id = ''a1'', artifact_name = None, parts = []\<rparr>])))))
     sample_uuid4 0 sample_agent ''Weather_Agent'' ''What is the weather?'' []
   = Inr (Parts [])"
    using send_message_without_parts_returns_empty_list
      [where self = sample_agent and agent_name = "''Weather_Agent''"
         and client = "\<lparr>agent_card = sample_card ''Weather_Agent'',
                          agent_url = ''http://localhost:10002''\<rparr>"
         and client_send = "\<lambda>client req. Inr (SendMessageSuccessResponse ''1''
               (TaskResult (sample_task (Some
                 [\<lparr>artifact_id = ''a1'', artifact_name = None, parts = []\<rparr>]))))"
         and uuid = sample_uuid4 and n = 0 and state = "[]"
         and task = "''What is the weather?''" and i = "''1''"
         and t = "sample_task (Some
                 [\<lparr>artifact_id = ''a1'', artifact_name = None, parts = []\<rparr>])"]
    by (simp add: sample_agent_def sample_task_def)
qed

text \<open>
  The tool has no handler of its own around the remote call: whatever the connection's
  send operation raises, the tool raises.
\<close>

lemma send_message_has_no_handler:
  assumes "map_of (remote_agent_connections self) agent_name = Some client"
    and "client_send client (message_request uuid n state task) = Inl e"
  shows "send_message client_send uuid n self agent_name task state = Inl e"
  using assms by (simp add: send_message_def)

text \<open>
  A reply that is not a success response wrapping a task (an error envelope, or a success
  that wraps a message) becomes the error string.
\<close>

lemma non_task_reply_becomes_error_string:
  assumes "map_of (remote_agent_connections self) agent_name = Some client"
    and "client_send client (message_request uuid n state task) = Inr reply"
    and "\<forall>i t. reply \<noteq> SendMessageSuccessResponse i (TaskResult t)"
  shows "send_message client_send uuid n self agent_name task state =
           Inr (Text ''Error: Failed to get a valid response from the agent.'')"
proof (cases reply)
  case (SendMessageSuccessResponse i r)
  with assms(3) obtain m where "r = MessageResult m" by (cases r) auto
  with SendMessageSuccessResponse assms(1,2) show ?thesis by (simp add: send_message_def)
next
  case (JSONRPCErrorResponse i err)
  with assms(1,2) show ?thesis by (simp add: send_message_def)
qed

text \<open>
  Claim C2. With the connection's send operation as the spec describes it, a transport
  error during the remote send (timeout, connection refused, malformed response body)
  reaches the caller of \<open>send_message\<close> as the error string, a returned value, and not
  as an exception.
\<close>

theorem transport_error_becomes_error_string:
  assumes "map_of (remote_agent_connections self) agent_name = Some client"
    and "wire (agent_url client) (message_request uuid n state task) = Inl err"
  shows "send_message (connection_send_message wire) uuid n self agent_name task state =
           Inr (Text ''Error: Failed to get a valid response from the agent.'')"
  using assms by (simp add: send_message_def connection_send_message_def)

theorem transport_error_becomes_error_string_witness:
  "send_message (connection_send_message (\<lambda>endpoint req. Inl Timeout))
     sample_uuid4 0 sample_agent ''Weather_Agent'' ''What is the weather?'' []
   = Inr (Text ''Error: Failed to get a valid response from the agent.'')"
  using transport_error_becomes_error_string
    [where self = sample_agent and agent_name = "''Weather_Agent''"
       and client = "\<lparr>agent_card = sample_card ''Weather_Agent'',
                        agent_url = ''http://localhost:10002''\<rparr>"
       and wire = "\<lambda>endpoint req. Inl Timeout" and err = Timeout
       and uuid = sample_uuid4 and n = 0 and state = "[]"
       and task = "''What is the weather?''"]
  by (simp add: sample_agent_def)

text \<open>
  Claim C3, as the code has it. For an agent name that is not a key of the connection
  registry, \<open>send_message\<close> raises \<open>ValueError\<close>; the message names the agent and lists
  the registered names. It does so whatever the connection's send operation is: no
  request is sent. It does not return an error value.
\<close>

theorem unknown_agent_raises_ValueError:
  assumes "agent_name \<notin> set (keys (remote_agent_connections self))"
  shows "send_message client_send uuid n self agent_name task state =
           Inl (ValueError
             [Lit (''Agent '' @ [CHR 0x27] @ agent_name @ [CHR 0x27]
                   @ '' not found. Available agents: ''),
              Repr (keys (remote_agent_connections self))])"
proof -
  from assms have "map_of (remote_agent_connections self) agent_name = None"
    by (simp add: keys_def map_of_eq_None_iff)
  then show ?thesis by (simp add: send_message_def)
qed

theorem unknown_agent_raises_ValueError_witness:
  "send_message (connection_send_message (\<lambda>endpoint req. Inl Timeout))
     sample_uuid4 0 sample_agent ''Time_Agent'' ''What time is it?'' []
   = Inl (ValueError
       [Lit (''Agent '' @ [CHR 0x27] @ ''Time_Agent'' @ [CHR 0x27]
             @ '' not found. Available agents: ''),
        Repr [''Weather_Agent'']])"
  using unknown_agent_raises_ValueError
    [where self = sample_agent and agent_name = "''Time_Agent''"
       and client_send = "connection_send_message (\<lambda>endpoint req. Inl Timeout)"
       and uuid = sample_uuid4 and n = 0 and state = "[]" and task = "''What time is it?''"]
  by (simp add: sample_agent_def keys_def)

text \<open>
  Claim C3, as the spec words it, fails: with an empty registry a delegation to
  \<open>Weather_Agent\<close> returns nothing, it raises.
\<close>

theorem unknown_agent_returns_no_value:
  "\<not> (\<exists>out. send_message (\<lambda>client req. Inr (JSONRPCErrorResponse ''1'' JNull))
          sample_uuid4 0 init ''Weather_Agent'' ''What is the weather?'' [] = Inr out)"
  by (simp add: send_message_def init_def)

text \<open>
  Claim C1, as the code has it, for each of the two identifiers on its own. When the
  tool-context state holds the key, every request built from that state carries the
  stored value, so any two calls agree on it. When the key is absent, the request
  carries a fresh draw (the first draw of the call for \<open>task_id\<close>, the second for
  \<open>context_id\<close>), so two calls made with that state carry different identifiers whenever
  their draws differ.
\<close>

theorem request_ids_are_stored_or_drawn:
  "task_id_of (message_request uuid n state task)
     = Inr (JStr (case map_of state ''task_id'' of None \<Rightarrow> uuid n | Some t \<Rightarrow> t))
   \<and> context_id_of (message_request uuid n state task)
     = Inr (JStr (case map_of state ''context_id'' of None \<Rightarrow> uuid (n + 1) | Some c \<Rightarrow> c))
   \<and> (map_of state ''task_id'' \<noteq> None \<longrightarrow>
        task_id_of (message_request uuid' n' state task')
          = task_id_of (message_request uuid n state task))
   \<and> (map_of state ''context_id'' \<noteq> None \<longrightarrow>
        context_id_of (message_request uuid' n' state task')
          = context_id_of (message_request uuid n state task))
   \<and> (map_of state ''task_id'' = None \<and> uuid' n' \<noteq> uuid n \<longrightarrow>
        task_id_of (message_request uuid' n' state task')
          \<noteq> task_id_of (message_request uuid n state task))
   \<and> (map_of state ''context_id'' = None \<and> uuid' (n' + 1) \<noteq> uuid (n + 1) \<longrightarrow>
        context_id_of (message_request uuid' n' state task')
          \<noteq> context_id_of (message_request uuid n state task))"
proof -
  have t: "task_id_of (message_request u m state x)
             = Inr (JStr (case map_of state ''task_id'' of None \<Rightarrow> u m | Some t \<Rightarrow> t))"
    for u m x
    by (simp add: task_id_of_def message_request_def payload_def state_get_def Let_def)
  have c: "context_id_of (message_request u m state x)
             = Inr (JStr (case map_of state ''context_id'' of None \<Rightarrow> u (m + 1) | Some c \<Rightarrow> c))"
    for u m x
    by (simp add: context_id_of_def message_request_def payload_def state_get_def Let_def
          split: option.split)
  show ?thesis
    by (intro conjI impI) (auto simp only: t c option.case sum.inject json.inject)
qed

theorem request_ids_are_stored_or_drawn_witness:
  "task_id_of (message_request sample_uuid4 0 [(''task_id'', ''T'')] ''first'') = Inr (JStr ''T'')
   \<and> task_id_of (message_request sample_uuid4 3 [(''task_id'', ''T'')] ''second'')
     = task_id_of (message_request sample_uuid4 0 [(''task_id'', ''T'')] ''first'')
   \<and> context_id_of (message_request sample_uuid4 0 [(''task_id'', ''T'')] ''first'')
     = Inr (JStr ''u'')
   \<and> context_id_of (message_request sample_uuid4 3 [(''task_id'', ''T'')] ''second'')
     \<noteq> context_id_of (message_request sample_uuid4 0 [(''task_id'', ''T'')] ''first'')"
proof -
  note T = request_ids_are_stored_or_drawn
    [where state = "[(''task_id'', ''T'')]" and uuid = sample_uuid4 and n = 0
       and task = "''first''" and uuid' = sample_uuid4 and n' = 3 and task' = "''second''"]
  from T have a: "task_id_of (message_request sample_uuid4 0 [(''task_id'', ''T'')] ''first'')
                    = Inr (JStr ''T'')"
    by simp
  from T have b: "task_id_of (message_request sample_uuid4 3 [(''task_id'', ''T'')] ''second'')
                    = task_id_of (message_request sample_uuid4 0 [(''task_id'', ''T'')] ''first'')"
    by simp
  from T have c: "context_id_of (message_request sample_uuid4 0 [(''task_id'', ''T'')] ''first'')
                    = Inr (JStr ''u'')"
    by (simp add: sample_uuid4_def)
  have "sample_uuid4 (3 + 1) \<noteq> sample_uuid4 (0 + 1)"
    by (simp add: sample_uuid4_def eval_nat_numeral)
  with T have d: "context_id_of (message_request sample_uuid4 3 [(''task_id'', ''T'')] ''second'')
                    \<noteq> context_id_of (message_request sample_uuid4 0 [(''task_id'', ''T'')] ''first'')"
    by auto
  from a b c d show ?thesis by blast
qed

text \<open>
  Claim C1, as the spec words it, fails: two successive calls with the same state, one
  that holds neither key, build requests with different task identifiers. The first call
  makes the draws 0, 1 and 2, the second the draws 3, 4 and 5.
\<close>

theorem generated_ids_are_not_stable:
  "task_id_of (message_request sample_uuid4 0 [] ''first'')
     \<noteq> task_id_of (message_request sample_uuid4 3 [] ''second'')"
  by (simp add: task_id_of_def message_request_def payload_def state_get_def sample_uuid4_def
      Let_def eval_nat_numeral)


section \<open>Properties of discovery\<close>

subsection \<open>Assignments to a dictionary\<close>

lemma keys_setitem:
  "map fst (setitem k v d) = (if k \<in> fst ` set d then map fst d else map fst d @ [k])"
  by (induction d) auto

lemma fst_set_setitem: "fst ` set (setitem k v d) = insert k (fst ` set d)"
  by (induction d) auto

lemma map_of_setitem: "map_of (setitem k v d) = (map_of d)(k \<mapsto> v)"
  by (induction d) (auto simp: fun_eq_iff)

lemma assign_all_Nil: "assign_all [] d = d"
  by (simp add: assign_all_def)

lemma assign_all_Cons: "assign_all (kv # kvs) d = assign_all kvs (setitem (fst kv) (snd kv) d)"
  by (simp add: assign_all_def)

lemma assign_all_append: "assign_all (xs @ ys) d = assign_all ys (assign_all xs d)"
  by (simp add: assign_all_def)

lemma map_of_assign_all: "map_of (assign_all kvs d) = map_of d ++ map_of (rev kvs)"
proof (induction kvs arbitrary: d)
  case Nil
  show ?case by (simp add: assign_all_Nil)
next
  case (Cons kv kvs)
  have "map_of (assign_all (kv # kvs) d) = (map_of d)(fst kv \<mapsto> snd kv) ++ map_of (rev kvs)"
    by (simp only: assign_all_Cons Cons.IH map_of_setitem)
  also have "\<dots> = map_of d ++ (map_of [kv] ++ map_of (rev kvs))"
    by (rule ext) (simp add: map_add_def split: option.split)
  finally show ?case by simp
qed

lemma set_keys_assign_all:
  "fst ` set (assign_all kvs d) = fst ` set d \<union> fst ` set kvs"
  by (induction kvs arbitrary: d) (simp_all add: assign_all_Nil assign_all_Cons fst_set_setitem)

lemma distinct_keys_assign_all:
  "distinct (map fst d) \<Longrightarrow> distinct (map fst (assign_all kvs d))"
  by (induction kvs arbitrary: d) (auto simp: assign_all_Nil assign_all_Cons keys_setitem)

lemma keys_assign_all_present:
  "fst ` set kvs \<subseteq> fst ` set d \<Longrightarrow> map fst (assign_all kvs d) = map fst d"
proof (induction kvs arbitrary: d)
  case Nil
  show ?case by (simp add: assign_all_Nil)
next
  case (Cons kv kvs)
  have "fst kv \<in> fst ` set d" using Cons.prems by simp
  then have k: "map fst (setitem (fst kv) (snd kv) d) = map fst d"
    by (simp add: keys_setitem)
  have "fst ` set kvs \<subseteq> fst ` set (setitem (fst kv) (snd kv) d)"
    using Cons.prems by (auto simp: fst_set_setitem)
  from Cons.IH [OF this] k show ?case by (simp add: assign_all_Cons)
qed

lemma keys_assign_all_same:
  "map fst kvs = map fst kvs' \<Longrightarrow> map fst d = map fst d'
    \<Longrightarrow> map fst (assign_all kvs d) = map fst (assign_all kvs' d')"
proof (induction kvs arbitrary: kvs' d d')
  case Nil
  then show ?case by (simp add: assign_all_Nil)
next
  case (Cons kv kvs)
  then obtain kv' r where k: "kvs' = kv' # r" "fst kv = fst kv'" "map fst kvs = map fst r"
    by (cases kvs') auto
  have "set (map fst d) = set (map fst d')" using Cons.prems(2) by simp
  then have "fst ` set d = fst ` set d'" by simp
  then have "map fst (setitem (fst kv) (snd kv) d) = map fst (setitem (fst kv') (snd kv') d')"
    using Cons.prems(2) k(2) by (simp add: keys_setitem)
  with Cons.IH [OF k(3)] show ?case by (simp add: assign_all_Cons k(1))
qed

lemma dict_eqI:
  "map fst xs = map fst ys \<Longrightarrow> map_of xs = map_of ys \<Longrightarrow> distinct (map fst xs) \<Longrightarrow> xs = ys"
proof (induction xs arbitrary: ys)
  case Nil
  then show ?case by simp
next
  case (Cons x xs)
  then obtain y r where y: "ys = y # r" "fst x = fst y" "map fst xs = map fst r"
    by (cases ys) auto
  have pt: "map_of (x # xs) k = map_of (y # r) k" for k
    using fun_cong [OF Cons.prems(2), of k] by (simp only: y(1))
  have xy: "x = y" using pt [of "fst x"] y(2) by (cases x; cases y) simp
  have "map_of xs k = map_of r k" for k
  proof (cases "k = fst x")
    case True
    then have "k \<notin> set (map fst xs)" "k \<notin> set (map fst r)"
      using Cons.prems(3) y(3) by auto
    then have "map_of xs k = None" "map_of r k = None"
      by (simp_all only: map_of_eq_None_iff set_map not_False_eq_True)
    then show ?thesis by simp
  next
    case False
    with pt [of k] xy show ?thesis by (cases x) (simp split: if_splits)
  qed
  then have "map_of xs = map_of r" by (rule ext)
  with Cons.IH [OF y(3)] Cons.prems(3) have "xs = r" by simp
  with xy y(1) show ?case by simp
qed

lemma assign_all_idem:
  assumes "distinct (map fst d)"
  shows "assign_all kvs (assign_all kvs d) = assign_all kvs d"
proof (rule dict_eqI)
  show "map fst (assign_all kvs (assign_all kvs d)) = map fst (assign_all kvs d)"
    by (rule keys_assign_all_present) (simp add: set_keys_assign_all)
  show "map_of (assign_all kvs (assign_all kvs d)) = map_of (assign_all kvs d)"
    by (rule ext) (simp add: map_of_assign_all map_add_def split: option.split)
  show "distinct (map fst (assign_all kvs (assign_all kvs d)))"
    using assms by (simp add: distinct_keys_assign_all)
qed

lemma discover_eq:
  "discover g addrs (self, out) =
     (self\<lparr>remote_agent_connections :=
              assign_all (map (\<lambda>ac. (name (snd ac), \<lparr>agent_card = snd ac, agent_url = fst ac\<rparr>))
                           (fetched g addrs)) (remote_agent_connections self),
            cards := assign_all (map (\<lambda>ac. (name (snd ac), snd ac)) (fetched g addrs)) (cards self)\<rparr>,
      out @ failed g addrs)"
proof (induction addrs arbitrary: self out)
  case Nil
  show ?case by (simp add: assign_all_Nil)
next
  case (Cons a as)
  show ?case
  proof (cases "g a")
    case (Inl e)
    then show ?thesis by (cases e) (simp_all add: Cons.IH)
  next
    case (Inr c)
    then show ?thesis by (simp add: Cons.IH assign_all_Cons)
  qed
qed

lemma set_setitem_subset: "set (setitem k v d) \<subseteq> insert (k, v) (set d)"
  by (induction d) auto

lemma set_assign_all_subset: "set (assign_all kvs d) \<subseteq> set d \<union> set kvs"
proof (induction kvs arbitrary: d)
  case Nil
  show ?case by (simp add: assign_all_Nil)
next
  case (Cons kv kvs)
  have "set (assign_all kvs (setitem (fst kv) (snd kv) d))
          \<subseteq> set (setitem (fst kv) (snd kv) d) \<union> set kvs"
    by (rule Cons.IH)
  also have "\<dots> \<subseteq> insert kv (set d) \<union> set kvs"
    using set_setitem_subset [of "fst kv" "snd kv" d] by auto
  finally show ?case by (auto simp: assign_all_Cons)
qed

lemma count_distinct_key:
  "distinct xs \<Longrightarrow> x \<in> set xs \<Longrightarrow> length (filter (\<lambda>k. k = x) xs) = 1"
proof (induction xs)
  case Nil
  then show ?case by simp
next
  case (Cons y ys)
  show ?case
  proof (cases "y = x")
    case True
    with Cons.prems have "x \<notin> set ys" by simp
    then have "filter (\<lambda>k. k = x) ys = []" by (auto simp: filter_empty_conv)
    with True show ?thesis by simp
  next
    case False
    with Cons show ?thesis by simp
  qed
qed

subsection \<open>The loop as a run of assignments\<close>

lemma fetched_append: "fetched g (xs @ ys) = fetched g xs @ fetched g ys"
  by (induction xs) (simp_all split: sum.split)

lemma set_fetched: "set (fetched g addrs) = {(a, c). a \<in> set addrs \<and> g a = Inr c}"
  by (induction addrs) (auto split: sum.splits)

lemma length_failed: "length (failed g addrs) = length (filter (\<lambda>a. isl (g a)) addrs)"
  by (induction addrs) (simp_all split: sum.split)

lemma create_eq:
  "create g dumps addrs =
     (\<lparr>remote_agent_connections =
          assign_all (map (\<lambda>ac. (name (snd ac), \<lparr>agent_card = snd ac, agent_url = fst ac\<rparr>))
                       (fetched g addrs)) [],
        cards = assign_all (map (\<lambda>ac. (name (snd ac), snd ac)) (fetched g addrs)) [],
        agents =
          (let agent_info =
                 map (\<lambda>crd. dumps (name crd) (description crd))
                   (values_of (assign_all (map (\<lambda>ac. (name (snd ac), snd ac)) (fetched g addrs)) []))
           in if agent_info \<noteq> [] then join [CHR 0x0A] agent_info
              else ''No connected agents found.'')\<rparr>,
      failed g addrs @
        [[Lit ''agent_info:'',
          Repr (map (\<lambda>crd. dumps (name crd) (description crd))
                  (values_of (assign_all (map (\<lambda>ac. (name (snd ac), snd ac)) (fetched g addrs)) [])))]])"
  by (simp add: create_def async_init_components_def discover_eq init_def Let_def)

lemma cards_create:
  "cards (fst (create g dumps addrs)) =
     assign_all (map (\<lambda>ac. (name (snd ac), snd ac)) (fetched g addrs)) []"
  by (simp add: create_eq)

lemma connections_create:
  "remote_agent_connections (fst (create g dumps addrs)) =
     assign_all (map (\<lambda>ac. (name (snd ac), \<lparr>agent_card = snd ac, agent_url = fst ac\<rparr>))
                  (fetched g addrs)) []"
  by (simp add: create_eq)

lemma distinct_keys_create:
  "distinct (keys (cards (fst (create g dumps addrs))))"
  "distinct (keys (remote_agent_connections (fst (create g dumps addrs))))"
  by (simp_all add: keys_def cards_create connections_create distinct_keys_assign_all)

lemma keys_create_same:
  "keys (cards (fst (create g dumps addrs))) =
     keys (remote_agent_connections (fst (create g dumps addrs)))"
  unfolding keys_def cards_create connections_create
  by (rule keys_assign_all_same) (simp_all add: comp_def)

lemma key_set_create:
  "set (keys (cards (fst (create g dumps addrs)))) = {name c |a c. a \<in> set addrs \<and> g a = Inr c}"
proof -
  have "set (keys (cards (fst (create g dumps addrs)))) = (\<lambda>ac. name (snd ac)) ` set (fetched g addrs)"
    by (simp add: keys_def cards_create set_keys_assign_all image_image)
  also have "\<dots> = {name c |a c. a \<in> set addrs \<and> g a = Inr c}"
    by (force simp: set_fetched image_iff)
  finally show ?thesis .
qed

lemma map_of_cards_create:
  "map_of (cards (fst (create g dumps addrs))) =
     map_option agent_card \<circ> map_of (remote_agent_connections (fst (create g dumps addrs)))"
proof -
  let ?U = "map (\<lambda>ac. (name (snd ac), \<lparr>agent_card = snd ac, agent_url = fst ac\<rparr>)) (fetched g addrs)"
  have "map (\<lambda>ac. (name (snd ac), snd ac)) (fetched g addrs) =
          map (\<lambda>(k, v). (k, agent_card v)) ?U"
    by (simp add: comp_def)
  then have "map_of (cards (fst (create g dumps addrs))) =
          map_of (map (\<lambda>(k, v). (k, agent_card v)) (rev ?U))"
    by (simp only: cards_create map_of_assign_all rev_map) simp
  also have "\<dots> = map_option agent_card \<circ> map_of (rev ?U)"
    by (rule map_of_map)
  also have "map_of (rev ?U) = map_of (remote_agent_connections (fst (create g dumps addrs)))"
    by (simp only: connections_create map_of_assign_all) simp
  finally show ?thesis .
qed

subsection \<open>The claims about discovery\<close>

text \<open>
  Claim C5. Discovery over any list of addresses ends with a registry; the model has no
  failing branch because both handlers of the loop swallow the exception. The registry
  holds exactly the names of the cards that were fetched, every connection in it belongs
  to an address that answered with that card, and what was printed before the final
  listing is one error line for each address that failed, in order. Over
  \<open>[A_ok, A_down, B_ok]\<close> the registry has the entries of \<open>A_ok\<close> and \<open>B_ok\<close> only.
\<close>

theorem discovery_skips_failed_addresses:
  "set (keys (cards (fst (create g dumps addrs)))) = {name c |a c. a \<in> set addrs \<and> g a = Inr c}
   \<and> set (keys (remote_agent_connections (fst (create g dumps addrs))))
       = {name c |a c. a \<in> set addrs \<and> g a = Inr c}
   \<and> (\<forall>kc \<in> set (remote_agent_connections (fst (create g dumps addrs))).
         agent_url (snd kc) \<in> set addrs \<and> g (agent_url (snd kc)) = Inr (agent_card (snd kc)))
   \<and> (\<forall>kc \<in> set (cards (fst (create g dumps addrs))). \<exists>a \<in> set addrs. g a = Inr (snd kc))
   \<and> butlast (snd (create g dumps addrs)) = failed g addrs"
proof (intro conjI ballI)
  show "set (keys (cards (fst (create g dumps addrs)))) = {name c |a c. a \<in> set addrs \<and> g a = Inr c}"
    by (rule key_set_create)
  then show "set (keys (remote_agent_connections (fst (create g dumps addrs))))
       = {name c |a c. a \<in> set addrs \<and> g a = Inr c}"
    by (simp only: keys_create_same)
next
  fix kc
  assume "kc \<in> set (remote_agent_connections (fst (create g dumps addrs)))"
  then have "kc \<in> set (map (\<lambda>ac. (name (snd ac), \<lparr>agent_card = snd ac, agent_url = fst ac\<rparr>))
                          (fetched g addrs))"
    using set_assign_all_subset
      [of "map (\<lambda>ac. (name (snd ac), \<lparr>agent_card = snd ac, agent_url = fst ac\<rparr>)) (fetched g addrs)" "[]"]
    by (auto simp: connections_create)
  then obtain a c where "(a, c) \<in> set (fetched g addrs)"
    and "kc = (name c, \<lparr>agent_card = c, agent_url = a\<rparr>)"
    by auto
  then show "agent_url (snd kc) \<in> set addrs" and "g (agent_url (snd kc)) = Inr (agent_card (snd kc))"
    by (simp_all add: set_fetched)
next
  fix kc
  assume "kc \<in> set (cards (fst (create g dumps addrs)))"
  then have "kc \<in> set (map (\<lambda>ac. (name (snd ac), snd ac)) (fetched g addrs))"
    using set_assign_all_subset [of "map (\<lambda>ac. (name (snd ac), snd ac)) (fetched g addrs)" "[]"]
    by (auto simp: cards_create)
  then obtain a c where "(a, c) \<in> set (fetched g addrs)" and "kc = (name c, c)"
    by auto
  then show "\<exists>a \<in> set addrs. g a = Inr (snd kc)"
    by (auto simp: set_fetched)
next
  show "butlast (snd (create g dumps addrs)) = failed g addrs"
    by (simp add: create_eq butlast_append)
qed

theorem discovery_skips_failed_addresses_witness:
  "set (keys (cards (fst (create sample_resolver (\<lambda>n d. n) [''A_ok'', ''A_down'', ''B_ok'']))))
     = {''A'', ''B''}
   \<and> butlast (snd (create sample_resolver (\<lambda>n d. n) [''A_ok'', ''A_down'', ''B_ok'']))
     = [[Lit ''ERROR: Failed to get agent card from A_down: All connection attempts failed'']]"
proof -
  note T = discovery_skips_failed_addresses
    [of sample_resolver "\<lambda>n d. n" "[''A_ok'', ''A_down'', ''B_ok'']"]
  have f: "fetched sample_resolver [''A_ok'', ''A_down'', ''B_ok'']
             = [(''A_ok'', sample_card ''A''), (''B_ok'', sample_card ''B'')]"
    by (simp add: sample_resolver_def)
  have "{name c |a c. a \<in> set [''A_ok'', ''A_down'', ''B_ok''] \<and> sample_resolver a = Inr c}
          = (\<lambda>ac. name (snd ac)) ` set (fetched sample_resolver [''A_ok'', ''A_down'', ''B_ok''])"
    unfolding set_fetched by force
  also have "\<dots> = {''A'', ''B''}"
    unfolding f by (simp add: sample_card_def)
  finally have e1: "{name c |a c. a \<in> set [''A_ok'', ''A_down'', ''B_ok''] \<and> sample_resolver a = Inr c}
          = {''A'', ''B''}" .
  have e2: "failed sample_resolver [''A_ok'', ''A_down'', ''B_ok'']
          = [[Lit ''ERROR: Failed to get agent card from A_down: All connection attempts failed'']]"
    by (simp add: sample_resolver_def)
  from T have k: "set (keys (cards (fst (create sample_resolver (\<lambda>n d. n)
                     [''A_ok'', ''A_down'', ''B_ok'']))))
        = {name c |a c. a \<in> set [''A_ok'', ''A_down'', ''B_ok''] \<and> sample_resolver a = Inr c}"
    by (rule conjunct1)
  have b: "butlast (snd (create sample_resolver (\<lambda>n d. n) [''A_ok'', ''A_down'', ''B_ok'']))
        = failed sample_resolver [''A_ok'', ''A_down'', ''B_ok'']"
    by (rule T [THEN conjunct2, THEN conjunct2, THEN conjunct2, THEN conjunct2])
  show ?thesis
    by (rule conjI) (rule trans [OF k e1], rule trans [OF b e2])
qed

text \<open>
  Claim C7. After discovery the two dictionaries have the same keys, in the same order
  and without repetition; the card stored under a key is the card of the connection
  stored under that key; and the key is the name on the card.
\<close>

theorem registry_maps_share_keys:
  "keys (cards (fst (create g dumps addrs)))
     = keys (remote_agent_connections (fst (create g dumps addrs)))
   \<and> distinct (keys (cards (fst (create g dumps addrs))))
   \<and> (\<forall>k. map_of (cards (fst (create g dumps addrs))) k
            = map_option agent_card (map_of (remote_agent_connections (fst (create g dumps addrs))) k))
   \<and> (\<forall>k c. map_of (cards (fst (create g dumps addrs))) k = Some c \<longrightarrow> name c = k)"
proof (intro conjI allI impI)
  show "keys (cards (fst (create g dumps addrs)))
     = keys (remote_agent_connections (fst (create g dumps addrs)))"
    by (rule keys_create_same)
  show "distinct (keys (cards (fst (create g dumps addrs))))"
    by (rule distinct_keys_create)
next
  fix k
  show "map_of (cards (fst (create g dumps addrs))) k
          = map_option agent_card (map_of (remote_agent_connections (fst (create g dumps addrs))) k)"
    by (simp add: map_of_cards_create)
next
  fix k c
  assume "map_of (cards (fst (create g dumps addrs))) k = Some c"
  then have "(k, c) \<in> set (cards (fst (create g dumps addrs)))"
    by (rule map_of_SomeD)
  then have "(k, c) \<in> set (map (\<lambda>ac. (name (snd ac), snd ac)) (fetched g addrs))"
    using set_assign_all_subset [of "map (\<lambda>ac. (name (snd ac), snd ac)) (fetched g addrs)" "[]"]
    by (auto simp: cards_create)
  then show "name c = k" by auto
qed

theorem registry_maps_share_keys_witness:
  "keys (cards (fst (create sample_resolver (\<lambda>n d. n) [''A_ok'', ''A_down'', ''B_ok''])))
     = keys (remote_agent_connections
               (fst (create sample_resolver (\<lambda>n d. n) [''A_ok'', ''A_down'', ''B_ok''])))
   \<and> map_of (cards (fst (create sample_resolver (\<lambda>n d. n) [''A_ok'', ''A_down'', ''B_ok''])))
        ''B'' = Some (sample_card ''B'')
   \<and> name (sample_card ''B'') = ''B''"
proof -
  note T = registry_maps_share_keys
    [of sample_resolver "\<lambda>n d. n" "[''A_ok'', ''A_down'', ''B_ok'']"]
  have ev: "map_of (cards (fst (create sample_resolver (\<lambda>n d. n) [''A_ok'', ''A_down'', ''B_ok''])))
        ''B'' = Some (sample_card ''B'')"
    by (simp add: create_def async_init_components_def init_def sample_resolver_def
          sample_card_def Let_def)
  from T ev have "name (sample_card ''B'') = ''B''" by blast
  with T ev show ?thesis by blast
qed

text \<open>
  Claim C8. Running discovery a second time on the same object, with every address
  answering as it did the first time, leaves the object as the first run left it: the
  same connections, the same cards, the same listing.
\<close>

theorem discovery_is_idempotent:
  "fst (async_init_components g dumps addrs (create g dumps addrs)) = fst (create g dumps addrs)"
proof -
  have c: "assign_all (map (\<lambda>ac. (name (snd ac), snd ac)) (fetched g addrs))
             (assign_all (map (\<lambda>ac. (name (snd ac), snd ac)) (fetched g addrs)) [])
           = assign_all (map (\<lambda>ac. (name (snd ac), snd ac)) (fetched g addrs)) []"
    by (rule assign_all_idem) (simp add: distinct_keys_assign_all)
  have r: "assign_all (map (\<lambda>ac. (name (snd ac), \<lparr>agent_card = snd ac, agent_url = fst ac\<rparr>))
                         (fetched g addrs))
             (assign_all (map (\<lambda>ac. (name (snd ac), \<lparr>agent_card = snd ac, agent_url = fst ac\<rparr>))
                            (fetched g addrs)) [])
           = assign_all (map (\<lambda>ac. (name (snd ac), \<lparr>agent_card = snd ac, agent_url = fst ac\<rparr>))
                           (fetched g addrs)) []"
    by (rule assign_all_idem) (simp add: distinct_keys_assign_all)
  show ?thesis
    by (simp add: create_eq async_init_components_def discover_eq c r Let_def)
qed

text \<open>
  Claim C9. When an earlier address and a later one answer with cards of the same name,
  and no address after the later one does, the registry has that name once, with the card
  and the connection of the later address. Nothing is printed about it: the lines printed
  are one per failing address, and the final listing.
\<close>

theorem later_card_wins:
  assumes "a1 \<in> set xs" and "g a1 = Inr c1" and "g a2 = Inr c2" and "name c1 = name c2"
    and "\<forall>a \<in> set ys. \<forall>c. g a = Inr c \<longrightarrow> name c \<noteq> name c2"
  shows "map_of (cards (fst (create g dumps (xs @ a2 # ys)))) (name c1) = Some c2
       \<and> map_of (remote_agent_connections (fst (create g dumps (xs @ a2 # ys)))) (name c1)
           = Some \<lparr>agent_card = c2, agent_url = a2\<rparr>
       \<and> length (filter (\<lambda>k. k = name c1) (keys (cards (fst (create g dumps (xs @ a2 # ys)))))) = 1
       \<and> length (filter (\<lambda>k. k = name c1)
                   (keys (remote_agent_connections (fst (create g dumps (xs @ a2 # ys)))))) = 1
       \<and> length (snd (create g dumps (xs @ a2 # ys)))
           = Suc (length (filter (\<lambda>a. isl (g a)) (xs @ a2 # ys)))"
proof -
  let ?R = "fst (create g dumps (xs @ a2 # ys))"
  let ?f = "\<lambda>ac. (name (snd ac), \<lparr>agent_card = snd ac, agent_url = fst ac\<rparr>)"
  have later: "name c2 \<notin> fst ` set (map ?f (fetched g ys))"
    using assms(5) by (auto simp: set_fetched)
  then have "map_of (rev (map ?f (fetched g ys))) (name c2) = None"
    by (simp add: map_of_eq_None_iff)
  then have conn: "map_of (remote_agent_connections ?R) (name c1)
                     = Some \<lparr>agent_card = c2, agent_url = a2\<rparr>"
    using assms(3,4)
    by (simp add: connections_create map_of_assign_all fetched_append rev_map map_add_def)
  then have crd: "map_of (cards ?R) (name c1) = Some c2"
    by (simp add: map_of_cards_create)
  from crd have "name c1 \<in> set (keys (cards ?R))"
    by (auto simp: keys_def dest: map_of_SomeD intro: rev_image_eqI)
  then have one: "length (filter (\<lambda>k. k = name c1) (keys (cards ?R))) = 1"
    using distinct_keys_create(1) by (rule count_distinct_key [rotated])
  then have one': "length (filter (\<lambda>k. k = name c1) (keys (remote_agent_connections ?R))) = 1"
    by (simp only: keys_create_same)
  have "length (snd (create g dumps (xs @ a2 # ys)))
          = Suc (length (filter (\<lambda>a. isl (g a)) (xs @ a2 # ys)))"
    by (simp only: create_eq snd_conv length_append length_failed) simp
  with conn crd one one' show ?thesis by blast
qed

theorem later_card_wins_witness:
  "map_of (cards (fst (create
       (\<lambda>a. if a = ''first'' then Inr (sample_card ''A'')
             else Inr ((sample_card ''A'')\<lparr>description := ''the later one''\<rparr>))
       (\<lambda>n d. n) [''first'', ''second'']))) ''A''
     = Some ((sample_card ''A'')\<lparr>description := ''the later one''\<rparr>)
   \<and> length (filter (\<lambda>k. k = ''A'') (keys (cards (fst (create
       (\<lambda>a. if a = ''first'' then Inr (sample_card ''A'')
             else Inr ((sample_card ''A'')\<lparr>description := ''the later one''\<rparr>))
       (\<lambda>n d. n) [''first'', ''second'']))))) = 1
   \<and> length (snd (create
       (\<lambda>a. if a = ''first'' then Inr (sample_card ''A'')
             else Inr ((sample_card ''A'')\<lparr>description := ''the later one''\<rparr>))
       (\<lambda>n d. n) [''first'', ''second''])) = 1"
proof -
  have n: "name (sample_card ''A'') = ''A''"
    by (simp add: sample_card_def)
  show ?thesis
    using later_card_wins
      [where xs = "[''first'']" and ys = "[]" and ?a1.0 = "''first''" and ?a2.0 = "''second''"
         and ?c1.0 = "sample_card ''A''"
         and ?c2.0 = "(sample_card ''A'')\<lparr>description := ''the later one''\<rparr>"
         and g = "\<lambda>a. if a = ''first'' then Inr (sample_card ''A'')
                     else Inr ((sample_card ''A'')\<lparr>description := ''the later one''\<rparr>)"
         and dumps = "\<lambda>n d. n"]
    by (simp add: n)
qed


section \<open>Properties of \<open>stream\<close>\<close>

lemma is_task_complete_relay: "is_task_complete (relay event) = is_final_response event"
  by (simp add: relay_def is_task_complete_def)

lemma stream_eq:
  "stream get_session create_session run_async store query session_id =
     (fst (resolve_session get_session create_session store session_id),
      map relay
        (run_async (fst (resolve_session get_session create_session store session_id))
           (session_ident (snd (resolve_session get_session create_session store session_id)))
           query))"
  by (simp add: stream_def split: prod.split)

lemma flags_of_stream:
  "map is_task_complete (snd (stream get_session create_session run_async store query session_id))
     = map is_final_response
         (run_async (fst (resolve_session get_session create_session store session_id))
            (session_ident (snd (resolve_session get_session create_session store session_id)))
            query)"
  by (simp add: stream_eq comp_def is_task_complete_relay)

text \<open>A direct answer: one final response whose text is spread over two parts.\<close>

lemma stream_direct_answer:
  "snd (stream sample_get_session sample_create_session
     (\<lambda>store sid q.
        [\<lparr>is_final_response = True,
          content = Some \<lparr>content_parts = Some [\<lparr>part_text = Some ''It is''\<rparr>,
                                                 \<lparr>part_text = None\<rparr>,
                                                 \<lparr>part_text = Some ''72F''\<rparr>]\<rparr>\<rparr>])
     [] ''What is the weather?'' ''s1'')
   = [JObj [(''is_task_complete'', JBool True),
            (''content'', JStr (''It is'' @ [CHR 0x0A] @ ''72F''))]]"
  by (simp add: stream_eq relay_def response_text_def)

text \<open>The turn runs under the identifier of the session, not under the one asked for.\<close>

lemma stream_runs_under_session_ident:
  "snd (stream sample_get_session sample_create_session
     (\<lambda>store sid q. if sid = ''generated'' then [\<lparr>is_final_response = True, content = None\<rparr>]
                      else [])
     [] ''hello'' [])
   = [JObj [(''is_task_complete'', JBool True), (''content'', JStr [])]]"
  by (simp add: stream_eq resolve_session_def sample_get_session_def sample_create_session_def
        relay_def response_text_def Let_def)

text \<open>
  Claim C4, as the code has it. \<open>stream\<close> yields one item for each event of the runner,
  in order, and the item is terminal exactly when the event is a final response. So the
  stream is some progress events followed by exactly one terminal event, and ends there,
  exactly when the events of the runner are some events that are not final followed by
  exactly one final response.
\<close>

theorem stream_relays_every_event:
  "length (snd (stream get_session create_session run_async store query session_id))
     = length
         (run_async (fst (resolve_session get_session create_session store session_id))
            (session_ident (snd (resolve_session get_session create_session store session_id)))
            query)
   \<and> map is_task_complete
         (snd (stream get_session create_session run_async store query session_id))
     = map is_final_response
         (run_async (fst (resolve_session get_session create_session store session_id))
            (session_ident (snd (resolve_session get_session create_session store session_id)))
            query)
   \<and> progress_then_terminal
         (map is_task_complete
            (snd (stream get_session create_session run_async store query session_id)))
     = progress_then_terminal
         (map is_final_response
            (run_async (fst (resolve_session get_session create_session store session_id))
               (session_ident (snd (resolve_session get_session create_session store session_id)))
               query))"
proof (intro conjI)
  show "length (snd (stream get_session create_session run_async store query session_id))
     = length
         (run_async (fst (resolve_session get_session create_session store session_id))
            (session_ident (snd (resolve_session get_session create_session store session_id)))
            query)"
    by (simp add: stream_eq)
  show "map is_task_complete
         (snd (stream get_session create_session run_async store query session_id))
     = map is_final_response
         (run_async (fst (resolve_session get_session create_session store session_id))
            (session_ident (snd (resolve_session get_session create_session store session_id)))
            query)"
    by (rule flags_of_stream)
  then show "progress_then_terminal
         (map is_task_complete
            (snd (stream get_session create_session run_async store query session_id)))
     = progress_then_terminal
         (map is_final_response
            (run_async (fst (resolve_session get_session create_session store session_id))
               (session_ident (snd (resolve_session get_session create_session store session_id)))
               query))"
    by (rule arg_cong)
qed

text \<open>
  Claim C4, as the spec words it, fails: when the runner marks an event as a final
  response and goes on, as it does for a long-running tool call, the stream has a
  terminal event in the middle and a second one at the end.
\<close>

theorem stream_with_two_terminal_events:
  "\<not> progress_then_terminal
       (map is_task_complete
          (snd (stream sample_get_session sample_create_session
             (\<lambda>store sid q.
                [\<lparr>is_final_response = True, content = None\<rparr>,
                 \<lparr>is_final_response = False, content = None\<rparr>,
                 \<lparr>is_final_response = True,
                  content = Some \<lparr>content_parts = Some [\<lparr>part_text = Some ''done''\<rparr>]\<rparr>\<rparr>])
             [] ''book a court'' ''s1'')))"
  by (simp add: stream_eq relay_def is_task_complete_def progress_then_terminal_def)

end
